theory Spec2Isabelle
  imports Complex_Main "HOL-Library.Word"
begin

section \<open>Errors\<close>

text \<open>
  The registered module errors of \<^verbatim>\<open>x/timecapsule/types/module.go\<close> that the modelled
  functions return, an \<open>Errorf\<close> for every plain \<^verbatim>\<open>fmt.Errorf\<close> (the text without the
  formatted arguments) and \<open>Panic\<close> for a Go run-time panic. A failing call is \<open>Inl e\<close>.
\<close>

datatype error =
    ErrInvalidCapsule
  | ErrCapsuleNotFound
  | ErrUnauthorized
  | ErrInvalidKeyShare
  | ErrInsufficientShares
  | ErrInvalidEncryption
  | ErrConditionNotMet
  | ErrCapsuleAlreadyOpened
  | ErrInvalidRecipient
  | ErrDataTooLarge
  | ErrInvalidTransfer
  | ErrDataStorageFailed
  | ErrDataRetrievalFailed
  | Errorf string
  | Panic string

section \<open>Byte strings and \<^verbatim>\<open>math/big\<close> integers\<close>

type_synonym byte = "8 word"
type_synonym bytes = "byte list"

text \<open>\<^verbatim>\<open>big.Int.SetBytes\<close>: the bytes read as a big-endian unsigned integer.\<close>

definition SetBytes :: "bytes \<Rightarrow> int" where
  "SetBytes bs = foldl (\<lambda>acc b. acc * 256 + uint b) 0 bs"

text \<open>
  \<^verbatim>\<open>big.Int.Bytes\<close>: the absolute value as a big-endian byte slice of minimal length
  (no leading zero byte; the empty slice for 0).
\<close>

fun nat_Bytes :: "nat \<Rightarrow> bytes" where
  "nat_Bytes n = (if n = 0 then [] else nat_Bytes (n div 256) @ [word_of_nat (n mod 256)])"

declare nat_Bytes.simps [simp del]

definition Bytes :: "int \<Rightarrow> bytes" where
  "Bytes x = nat_Bytes (nat \<bar>x\<bar>)"

text \<open>
  \<^verbatim>\<open>big.Int.Mod\<close> is the Euclidean modulus: the result lies in \<open>[0, |m|)\<close>. The modulus
  of this package is always the positive constant of \<^verbatim>\<open>NewShamirSecretSharing\<close>.
\<close>

definition big_Mod :: "int \<Rightarrow> int \<Rightarrow> int" where
  "big_Mod x m = x mod \<bar>m\<bar>"

text \<open>
  \<^verbatim>\<open>big.Int.ModInverse(g, n)\<close>: the inverse of \<open>g\<close> in the ring of integers modulo \<open>n\<close>,
  in the range \<open>[0, |n|)\<close>, or nil (\<open>None\<close>) when \<open>g\<close> and \<open>n\<close> are not relatively prime.
  The B\'ezout coefficient comes from the extended Euclidean algorithm \<^const>\<open>bezw\<close>.
\<close>

definition ModInverse :: "int \<Rightarrow> int \<Rightarrow> int option" where
  "ModInverse g n =
     (let n' = \<bar>n\<bar>; g' = (if g < 0 then g mod n' else g)
      in if gcd g' n' \<noteq> 1 then None
         else Some (fst (bezw (nat g') (nat n')) mod n'))"

section \<open>Shamir secret sharing (\<^verbatim>\<open>x/timecapsule/crypto/shamir.go\<close>)\<close>

record ShamirSecretSharing =
  prime :: int

definition NewShamirSecretSharing :: ShamirSecretSharing where
  "NewShamirSecretSharing =
     \<lparr>prime = 115792089237316195423570985008687907853269984665640564039457584007913129639747\<rparr>"

record Share =
  X :: int
  Y :: int

text \<open>
  \<^verbatim>\<open>evaluatePolynomial\<close>: the loop over the coefficients carries \<open>result\<close> and \<open>xPower\<close>,
  both reduced after every step.
\<close>

fun evaluatePolynomial_loop :: "int \<Rightarrow> int list \<Rightarrow> int \<Rightarrow> int \<Rightarrow> int \<Rightarrow> int" where
  "evaluatePolynomial_loop p [] x result xPower = result"
| "evaluatePolynomial_loop p (coeff # cs) x result xPower =
     evaluatePolynomial_loop p cs x
       (big_Mod (result + coeff * xPower) p) (big_Mod (xPower * x) p)"

definition evaluatePolynomial :: "ShamirSecretSharing \<Rightarrow> int list \<Rightarrow> int \<Rightarrow> int" where
  "evaluatePolynomial sss coefficients x = evaluatePolynomial_loop (prime sss) coefficients x 0 1"

text \<open>
  The coefficient loop of \<^verbatim>\<open>SplitSecret\<close>. \<open>rnd i\<close> is what the \<open>i\<close>-th call of
  \<^verbatim>\<open>rand.Int(rand.Reader, sss.prime)\<close> returns: a value, or \<open>None\<close> when the reader fails.
  \<open>k\<close> counts the iterations that are left, \<open>i\<close> is the loop index.
\<close>

fun gen_coefficients :: "(nat \<Rightarrow> int option) \<Rightarrow> nat \<Rightarrow> nat \<Rightarrow> int list option" where
  "gen_coefficients rnd i 0 = Some []"
| "gen_coefficients rnd i (Suc k) =
     (case rnd i of
        None \<Rightarrow> None
      | Some coeff \<Rightarrow>
          (case gen_coefficients rnd (Suc i) k of
             None \<Rightarrow> None
           | Some cs \<Rightarrow> Some (coeff # cs)))"

text \<open>
  \<^verbatim>\<open>SplitSecret\<close>. \<open>threshold\<close> and \<open>totalShares\<close> are Go \<^verbatim>\<open>int\<close>s; share \<open>i\<close> has
  \<open>x = i + 1\<close>.
\<close>

definition SplitSecret ::
  "ShamirSecretSharing \<Rightarrow> (nat \<Rightarrow> int option) \<Rightarrow> bytes \<Rightarrow> int \<Rightarrow> int \<Rightarrow> error + Share list" where
  "SplitSecret sss rnd secret threshold totalShares =
     (if threshold > totalShares then
        Inl (Errorf ''threshold cannot be greater than total shares'')
      else if threshold < 1 then Inl (Errorf ''threshold must be at least 1'')
      else if totalShares < 1 then Inl (Errorf ''total shares must be at least 1'')
      else
        let secretInt = SetBytes secret in
        if secretInt \<ge> prime sss then Inl (Errorf ''secret is too large for the prime field'')
        else
          (case gen_coefficients rnd 1 (nat threshold - 1) of
             None \<Rightarrow> Inl (Errorf ''failed to generate coefficient'')
           | Some cs \<Rightarrow>
               Inr (map (\<lambda>i. \<lparr>X = int i + 1,
                               Y = evaluatePolynomial sss (secretInt # cs) (int i + 1)\<rparr>)
                      [0..<nat totalShares])))"

text \<open>
  The inner loop of \<^verbatim>\<open>CombineShares\<close> for share \<open>share\<close> at index \<open>i\<close>: it runs over all
  shares with their index \<open>j\<close> and skips \<open>j = i\<close>.
\<close>

fun lagrange_basis :: "int \<Rightarrow> nat \<Rightarrow> Share \<Rightarrow> nat \<Rightarrow> Share list \<Rightarrow> int \<times> int \<Rightarrow> int \<times> int" where
  "lagrange_basis p i share j [] (numerator, denominator) = (numerator, denominator)"
| "lagrange_basis p i share j (otherShare # rest) (numerator, denominator) =
     lagrange_basis p i share (Suc j) rest
       (if i \<noteq> j
        then (big_Mod (numerator * (- X otherShare)) p,
              big_Mod (denominator * (X share - X otherShare)) p)
        else (numerator, denominator))"

text \<open>The outer loop: \<open>todo\<close> are the shares from index \<open>i\<close> on, \<open>secret\<close> the running sum.\<close>

fun lagrange_sum :: "int \<Rightarrow> Share list \<Rightarrow> nat \<Rightarrow> Share list \<Rightarrow> int \<Rightarrow> error + int" where
  "lagrange_sum p shares i [] secret = Inr secret"
| "lagrange_sum p shares i (share # todo) secret =
     (case lagrange_basis p i share 0 shares (1, 1) of
        (numerator, denominator) \<Rightarrow>
          (case ModInverse denominator p of
             None \<Rightarrow> Inl (Errorf ''failed to compute modular inverse'')
           | Some denomInv \<Rightarrow>
               lagrange_sum p shares (Suc i) todo
                 (big_Mod (secret + Y share * big_Mod (numerator * denomInv) p) p)))"

text \<open>
  \<^verbatim>\<open>CombineShares\<close>. The duplicate check compares the decimal strings of the
  x-coordinates, which are equal exactly when the integers are. The function takes no
  threshold: it interpolates through whatever shares it is given.
\<close>

definition CombineShares :: "ShamirSecretSharing \<Rightarrow> Share list \<Rightarrow> error + bytes" where
  "CombineShares sss shares =
     (if length shares < 1 then Inl (Errorf ''need at least 1 share'')
      else if \<not> distinct (map X shares) then Inl (Errorf ''duplicate x coordinate found'')
      else
        (case lagrange_sum (prime sss) shares 0 shares 0 of
           Inl e \<Rightarrow> Inl e
         | Inr secret \<Rightarrow> Inr (Bytes secret)))"

text \<open>\<^verbatim>\<open>ValidateShares\<close> (coordinates are never nil in this model).\<close>

definition ValidateShares :: "ShamirSecretSharing \<Rightarrow> Share list \<Rightarrow> error + unit" where
  "ValidateShares sss shares =
     (if length shares = 0 then Inl (Errorf ''no shares provided'')
      else if \<exists>share \<in> set shares. X share \<le> 0 then
        Inl (Errorf ''share has invalid x coordinate (must be positive)'')
      else if \<exists>share \<in> set shares. X share \<ge> prime sss \<or> Y share \<ge> prime sss then
        Inl (Errorf ''share coordinates are outside the prime field'')
      else Inr ())"

section \<open>Capsules (\<^verbatim>\<open>x/timecapsule/types/capsule.go\<close>)\<close>

text \<open>
  A \<^verbatim>\<open>time.Time\<close> is an instant, here in nanoseconds on the time line; \<^verbatim>\<open>After\<close> and
  \<^verbatim>\<open>Before\<close> compare instants strictly, \<^verbatim>\<open>Add\<close> moves an instant by a duration in
  nanoseconds. A \<^verbatim>\<open>*time.Time\<close> is an \<open>option\<close>.
\<close>

type_synonym Time = int

definition After :: "Time \<Rightarrow> Time \<Rightarrow> bool" where
  "After t u = (t > u)"

definition Before :: "Time \<Rightarrow> Time \<Rightarrow> bool" where
  "Before t u = (t < u)"

definition Time_Add :: "Time \<Rightarrow> int \<Rightarrow> Time" where
  "Time_Add t d = t + d"

datatype CapsuleType =
    CapsuleType_UNKNOWN
  | CapsuleType_SAFE
  | CapsuleType_TIME_LOCK
  | CapsuleType_CONDITIONAL
  | CapsuleType_MULTI_SIG
  | CapsuleType_DEAD_MANS_SWITCH

datatype CapsuleStatus =
    CapsuleStatus_UNKNOWN
  | CapsuleStatus_ACTIVE
  | CapsuleStatus_UNLOCKED
  | CapsuleStatus_EXPIRED
  | CapsuleStatus_CANCELLED

record TimeCapsule =
  ID :: "64 word"
  Owner :: string
  Recipient :: string
  CapsuleType :: CapsuleType
  Status :: CapsuleStatus
  EncryptedData :: bytes
  DataHash :: string
  EncryptionAlgo :: string
  IPFSHash :: string
  DataSize :: int
  StorageType :: string
  UnlockTime :: "Time option"
  ConditionContract :: string
  RequiredSigs :: "32 word"
  Threshold :: "32 word"
  TotalShares :: "32 word"
  ShareHolders :: "string list"
  CreatedAt :: Time
  UpdatedAt :: Time
  ExpiresAt :: "Time option"
  LastActivity :: "Time option"
  InactivityPeriod :: "64 word"
  Metadata :: "(string \<times> string) list"

text \<open>
  The block context of a message: \<^verbatim>\<open>ctx.BlockTime()\<close> and \<^verbatim>\<open>ctx.BlockHeight()\<close>.
\<close>

record Context =
  BlockTime :: Time
  BlockHeight :: int

text \<open>
  \<^verbatim>\<open>TimeCapsule.Validate\<close>. \<open>bech32_ok\<close> says whether \<^verbatim>\<open>sdk.AccAddressFromBech32\<close>
  accepts an address; \<open>now\<close> is the value of \<^verbatim>\<open>time.Now()\<close>, the wall clock of the
  machine that runs the call.
\<close>

definition Validate :: "(string \<Rightarrow> bool) \<Rightarrow> Time \<Rightarrow> TimeCapsule \<Rightarrow> error + unit" where
  "Validate bech32_ok now tc =
     (if ID tc = 0 then Inl (Errorf ''capsule ID cannot be zero'')
      else if \<not> bech32_ok (Owner tc) then Inl (Errorf ''invalid owner address'')
      else if Recipient tc \<noteq> [] \<and> \<not> bech32_ok (Recipient tc) then
        Inl (Errorf ''invalid recipient address'')
      else if length (EncryptedData tc) = 0 then Inl (Errorf ''encrypted data cannot be empty'')
      else if DataHash tc = [] then Inl (Errorf ''data hash cannot be empty'')
      else if Threshold tc > TotalShares tc then
        Inl (Errorf ''threshold cannot be greater than total shares'')
      else if TotalShares tc = 0 then Inl (Errorf ''total shares must be greater than zero'')
      else
        (case CapsuleType tc of
           CapsuleType_TIME_LOCK \<Rightarrow>
             (case UnlockTime tc of
                None \<Rightarrow> Inl (Errorf ''time-locked capsule must have unlock time'')
              | Some u \<Rightarrow>
                  if Before u now then Inl (Errorf ''unlock time must be in the future'')
                  else Inr ())
         | CapsuleType_CONDITIONAL \<Rightarrow>
             if ConditionContract tc = [] then
               Inl (Errorf ''conditional capsule must have condition contract'')
             else Inr ()
         | CapsuleType_MULTI_SIG \<Rightarrow>
             if RequiredSigs tc = 0 then
               Inl (Errorf ''multi-sig capsule must have required signatures'')
             else Inr ()
         | CapsuleType_DEAD_MANS_SWITCH \<Rightarrow>
             if InactivityPeriod tc = 0 then
               Inl (Errorf ''dead man's switch capsule must have inactivity period'')
             else Inr ()
         | _ \<Rightarrow> Inr ()))"

text \<open>
  \<^verbatim>\<open>TimeCapsule.IsUnlockable\<close>. The inactivity duration is
  \<^verbatim>\<open>time.Duration(tc.InactivityPeriod) * time.Second\<close>, a signed 64-bit product that wraps.
\<close>

definition IsUnlockable :: "TimeCapsule \<Rightarrow> Context \<Rightarrow> bool" where
  "IsUnlockable tc ctx =
     (if Status tc \<noteq> CapsuleStatus_ACTIVE then False
      else
        (case CapsuleType tc of
           CapsuleType_SAFE \<Rightarrow> True
         | CapsuleType_TIME_LOCK \<Rightarrow>
             (case UnlockTime tc of
                None \<Rightarrow> False
              | Some u \<Rightarrow> After (BlockTime ctx) u)
         | CapsuleType_DEAD_MANS_SWITCH \<Rightarrow>
             (case LastActivity tc of
                None \<Rightarrow> False
              | Some la \<Rightarrow>
                  if InactivityPeriod tc = 0 then False
                  else
                    let inactivityDuration = sint (InactivityPeriod tc * 1000000000)
                    in After (BlockTime ctx) (Time_Add la inactivityDuration))
         | CapsuleType_CONDITIONAL \<Rightarrow> False
         | CapsuleType_MULTI_SIG \<Rightarrow> False
         | CapsuleType_UNKNOWN \<Rightarrow> False))"

text \<open>\<^verbatim>\<open>TimeCapsule.UpdateActivity\<close>.\<close>

definition UpdateActivity :: "TimeCapsule \<Rightarrow> Time \<Rightarrow> TimeCapsule" where
  "UpdateActivity tc blockTime =
     (if CapsuleType tc = CapsuleType_DEAD_MANS_SWITCH
      then tc\<lparr>LastActivity := Some blockTime, UpdatedAt := blockTime\<rparr>
      else tc)"

text \<open>\<^verbatim>\<open>TimeCondition.Evaluate\<close> of \<^verbatim>\<open>types/conditions.go\<close>; it never fails.\<close>

record TimeCondition =
  tc_UnlockTime :: Time
  tc_Timezone :: string

definition TimeCondition_Evaluate :: "TimeCondition \<Rightarrow> Context \<Rightarrow> error + bool" where
  "TimeCondition_Evaluate tc ctx = Inr (After (BlockTime ctx) (tc_UnlockTime tc))"

text \<open>
  \<^verbatim>\<open>Keeper.canAccess\<close>: three tests in the source's order; the third repeats the second
  for dead man's switch capsules.
\<close>

definition canAccess :: "TimeCapsule \<Rightarrow> string \<Rightarrow> bool" where
  "canAccess capsule accessor =
     (if Owner capsule = accessor \<and> CapsuleType capsule = CapsuleType_SAFE then True
      else if Recipient capsule = accessor then True
      else if CapsuleType capsule = CapsuleType_DEAD_MANS_SWITCH \<and> Recipient capsule = accessor
        then True
      else False)"

section \<open>The encryption manager (package \<^verbatim>\<open>crypto\<close>, in \<^verbatim>\<open>ipfs/client.go\<close>)\<close>

text \<open>
  What the keeper calls outside this repository is a parameter of the model:
  \<^item> \<open>addressCodec_ok\<close>: \<^verbatim>\<open>k.addressCodec.StringToBytes\<close> returns no error;
  \<^item> \<open>bech32_ok\<close>: \<^verbatim>\<open>sdk.AccAddressFromBech32\<close> returns no error;
  \<^item> \<open>sha256_hex\<close>: the lower-case hex text of \<^verbatim>\<open>sha256.Sum256\<close>;
  \<^item> \<open>gcm_Seal key nonce plaintext\<close> and \<open>gcm_Open key nonce ciphertext\<close>: AES-GCM of
    \<^verbatim>\<open>crypto/cipher\<close> for a nonce of the standard size (\<open>None\<close>: authentication failed);
  \<^item> \<open>ipfs_Store\<close> and \<open>ipfs_Retrieve\<close>: \<^verbatim>\<open>StoreCapsuleData\<close> (the hash it returns) and
    \<^verbatim>\<open>RetrieveCapsuleData\<close> of the IPFS manager (\<open>None\<close>: an error);
  \<^item> \<open>not_found_text\<close>: the \<^verbatim>\<open>Error()\<close> text of the store's error for an absent key.
\<close>

record Host =
  addressCodec_ok :: "string \<Rightarrow> bool"
  bech32_ok :: "string \<Rightarrow> bool"
  sha256_hex :: "bytes \<Rightarrow> string"
  gcm_Seal :: "bytes \<Rightarrow> bytes \<Rightarrow> bytes \<Rightarrow> bytes"
  gcm_Open :: "bytes \<Rightarrow> bytes \<Rightarrow> bytes \<Rightarrow> bytes option"
  ipfs_Store :: "64 word \<Rightarrow> bytes \<Rightarrow> string option"
  ipfs_Retrieve :: "string \<Rightarrow> 64 word \<Rightarrow> bytes option"
  not_found_text :: string

text \<open>
  The random reader. \<open>rand_key\<close> and \<open>rand_nonce\<close> are what \<^verbatim>\<open>rand.Read\<close> writes into the
  key and the nonce buffer (\<open>None\<close>: it fails), \<open>rand_Int\<close> what the calls of \<^verbatim>\<open>rand.Int\<close>
  return. \<^verbatim>\<open>rand.Read\<close> fills a buffer of fixed length, \<open>fill\<close> cuts or pads to it.
\<close>

record Rand =
  rand_key :: "bytes option"
  rand_nonce :: "bytes option"
  rand_Int :: "nat \<Rightarrow> int option"

definition fill :: "nat \<Rightarrow> bytes \<Rightarrow> bytes" where
  "fill n bs = take n (bs @ replicate n 0)"

record EncryptedData =
  Data :: bytes
  Nonce :: bytes
  Salt :: bytes
  Algorithm :: string

definition keySize :: nat where
  "keySize = 32"

text \<open>The nonce size of \<^verbatim>\<open>cipher.NewGCM\<close>.\<close>

definition gcm_NonceSize :: nat where
  "gcm_NonceSize = 12"

definition GenerateKey :: "Rand \<Rightarrow> error + bytes" where
  "GenerateKey rnd =
     (case rand_key rnd of
        None \<Rightarrow> Inl (Errorf ''failed to generate key'')
      | Some k \<Rightarrow> Inr (fill keySize k))"

definition Encrypt :: "Host \<Rightarrow> Rand \<Rightarrow> bytes \<Rightarrow> bytes \<Rightarrow> error + EncryptedData" where
  "Encrypt h rnd data key =
     (if length key \<noteq> keySize then Inl (Errorf ''invalid key size'')
      else
        (case rand_nonce rnd of
           None \<Rightarrow> Inl (Errorf ''failed to generate nonce'')
         | Some n \<Rightarrow>
             let nonce = fill gcm_NonceSize n
             in Inr \<lparr>Data = gcm_Seal h key nonce data, Nonce = nonce, Salt = [],
                      Algorithm = ''AES-256-GCM''\<rparr>))"

text \<open>
  \<^verbatim>\<open>Decrypt\<close>. \<^verbatim>\<open>gcm.Open\<close> panics with "incorrect nonce length given to GCM" when the
  nonce has not the size of the mode, before it looks at the ciphertext.
\<close>

definition Decrypt :: "Host \<Rightarrow> EncryptedData \<Rightarrow> bytes \<Rightarrow> error + bytes" where
  "Decrypt h encData key =
     (if length key \<noteq> keySize then Inl (Errorf ''invalid key size'')
      else if Algorithm encData \<noteq> ''AES-256-GCM'' then Inl (Errorf ''unsupported algorithm'')
      else if length (Nonce encData) \<noteq> gcm_NonceSize then
        Inl (Panic ''crypto/cipher: incorrect nonce length given to GCM'')
      else
        (case gcm_Open h key (Nonce encData) (Data encData) of
           None \<Rightarrow> Inl (Errorf ''failed to decrypt'')
         | Some plaintext \<Rightarrow> Inr plaintext))"

definition HashData :: "Host \<Rightarrow> bytes \<Rightarrow> string" where
  "HashData h data = sha256_hex h data"

definition VerifyDataIntegrity :: "Host \<Rightarrow> bytes \<Rightarrow> string \<Rightarrow> bool" where
  "VerifyDataIntegrity h data expectedHash = (HashData h data = expectedHash)"

text \<open>\<^verbatim>\<open>shareToBytes\<close>: \<open>[x_len][x_bytes][y_len][y_bytes]\<close>, the lengths in two bytes.\<close>

definition shareToBytes :: "Share \<Rightarrow> bytes" where
  "shareToBytes share =
     (let xBytes = Bytes (X share); yBytes = Bytes (Y share)
      in [word_of_nat (length xBytes div 256), word_of_nat (length xBytes)] @ xBytes @
         [word_of_nat (length yBytes div 256), word_of_nat (length yBytes)] @ yBytes)"

section \<open>The keeper's store\<close>

record KeyShare =
  ks_CapsuleID :: "64 word"
  ShareIndex :: "32 word"
  NodeID :: string
  EncryptedShare :: bytes
  ks_CreatedAt :: Time

record TransferHistory =
  th_CapsuleID :: "64 word"
  th_TransferID :: string
  th_FromOwner :: string
  th_ToOwner :: string
  TransferType :: string
  th_Status :: string
  TransferTime :: Time
  ApprovalTime :: "Time option"
  th_Message :: string
  th_BlockHeight :: int
  TxHash :: string

record PendingTransfer =
  pt_TransferID :: string
  pt_CapsuleID :: "64 word"
  pt_FromOwner :: string
  pt_ToOwner :: string
  RequestTime :: Time
  ExpiryTime :: Time
  pt_Message :: string
  RequireApproval :: bool
  pt_Status :: string

record TransferStats =
  TotalTransfers :: "64 word"
  PendingTransfers :: "64 word"
  CompletedTransfers :: "64 word"
  RejectedTransfers :: "64 word"
  BatchTransfers :: "64 word"
  LastTransferTime :: "Time option"

text \<open>An event: its type and its attributes, in the order of \<^verbatim>\<open>sdk.NewEvent\<close>.\<close>

type_synonym Event = "string \<times> (string \<times> string) list"

text \<open>
  The collections of the keeper and the events the context's event manager has got.
  \<open>capsules\<close> is kept in key order, the order in which \<^verbatim>\<open>Walk\<close> visits it; the other
  maps are only read and written by key. The logger and the security monitor keep no
  chain state and are left out.
\<close>

record Keeper =
  capsules :: "(64 word \<times> TimeCapsule) list"
  userCapsules :: "(string \<times> 64 word) set"
  keyShares :: "(64 word \<times> 32 word) \<rightharpoonup> KeyShare"
  capsuleCounter :: "64 word"
  transferHistory :: "string \<rightharpoonup> TransferHistory"
  pendingTransfers :: "string \<rightharpoonup> PendingTransfer"
  transferStats :: "TransferStats option"
  events :: "Event list"

fun kv_set :: "'k::linorder \<Rightarrow> 'v \<Rightarrow> ('k \<times> 'v) list \<Rightarrow> ('k \<times> 'v) list" where
  "kv_set k v [] = [(k, v)]"
| "kv_set k v ((k', v') # rest) =
     (if k < k' then (k, v) # (k', v') # rest
      else if k = k' then (k, v) # rest
      else (k', v') # kv_set k v rest)"

definition kv_get :: "('k \<times> 'v) list \<Rightarrow> 'k \<Rightarrow> 'v option" where
  "kv_get kvs k = map_of kvs k"

definition EmitEvent :: "Event \<Rightarrow> Keeper \<Rightarrow> Keeper" where
  "EmitEvent e s = s\<lparr>events := events s @ [e]\<rparr>"

text \<open>\<^verbatim>\<open>fmt.Sprintf("%d", n)\<close> and \<^verbatim>\<open>"%t"\<close>.\<close>

fun show_nat :: "nat \<Rightarrow> string" where
  "show_nat n =
     (if n < 10 then [''0123456789'' ! n]
      else show_nat (n div 10) @ [''0123456789'' ! (n mod 10)])"

declare show_nat.simps [simp del]

definition show_int :: "int \<Rightarrow> string" where
  "show_int i = (if i < 0 then CHR ''-'' # show_nat (nat (- i)) else show_nat (nat i))"

definition show_bool :: "bool \<Rightarrow> string" where
  "show_bool b = (if b then ''true'' else ''false'')"

section \<open>The keeper (\<^verbatim>\<open>keeper.go\<close>, \<^verbatim>\<open>msg_server.go\<close>)\<close>

text \<open>
  Every operation takes the store and returns its result together with the store as the
  operation leaves it. The host commits the store of a message only when the result is
  not an error (\<open>commit\<close>).
\<close>

definition commit :: "Keeper \<Rightarrow> (error + 'a) \<times> Keeper \<Rightarrow> Keeper" where
  "commit s r = (case fst r of Inl e \<Rightarrow> s | Inr v \<Rightarrow> snd r)"

definition GetCapsule :: "Host \<Rightarrow> Keeper \<Rightarrow> 64 word \<Rightarrow> error + TimeCapsule" where
  "GetCapsule h s capsuleID =
     (case kv_get (capsules s) capsuleID of
        None \<Rightarrow>
          if not_found_text h = ''not found'' then Inl ErrCapsuleNotFound
          else Inl (Errorf ''failed to get capsule'')
      | Some capsule \<Rightarrow> Inr capsule)"

text \<open>
  \<^verbatim>\<open>Keeper.OpenCapsule\<close>. The \<^verbatim>\<open>conditionParams\<close> argument is never read and is left
  out. The \<^verbatim>\<open>EncryptedData\<close> handed to \<^verbatim>\<open>Decrypt\<close> is built from the ciphertext and the
  algorithm only; its nonce is nil.
\<close>

definition OpenCapsule ::
  "Host \<Rightarrow> Context \<Rightarrow> Keeper \<Rightarrow> 64 word \<Rightarrow> string \<Rightarrow> Share list \<Rightarrow> (error + bytes) \<times> Keeper" where
  "OpenCapsule h ctx s capsuleID accessor providedShares =
     (case GetCapsule h s capsuleID of
        Inl e \<Rightarrow> (Inl e, s)
      | Inr capsule \<Rightarrow>
          if \<not> addressCodec_ok h accessor then (Inl ErrUnauthorized, s)
          else if Status capsule \<noteq> CapsuleStatus_ACTIVE then (Inl ErrCapsuleAlreadyOpened, s)
          else if \<not> canAccess capsule accessor then (Inl ErrUnauthorized, s)
          else if \<not> IsUnlockable capsule ctx then (Inl ErrConditionNotMet, s)
          else if length providedShares < unat (Threshold capsule) then
            (Inl ErrInsufficientShares, s)
          else
            (case CombineShares NewShamirSecretSharing
                    (take (unat (Threshold capsule)) providedShares) of
               Inl e \<Rightarrow> (Inl ErrInvalidKeyShare, s)
             | Inr encryptionKey \<Rightarrow>
                 (case (if StorageType capsule = ''ipfs''
                        then ipfs_Retrieve h (IPFSHash capsule) capsuleID
                        else Some (EncryptedData capsule)) of
                    None \<Rightarrow> (Inl ErrDataRetrievalFailed, s)
                  | Some encryptedDataBytes \<Rightarrow>
                      (case Decrypt h \<lparr>Data = encryptedDataBytes, Nonce = [], Salt = [],
                                         Algorithm = EncryptionAlgo capsule\<rparr> encryptionKey of
                         Inl (Panic m) \<Rightarrow> (Inl (Panic m), s)
                       | Inl e \<Rightarrow> (Inl ErrInvalidEncryption, s)
                       | Inr decryptedData \<Rightarrow>
                           if \<not> VerifyDataIntegrity h decryptedData (DataHash capsule) then
                             (Inl ErrInvalidEncryption, s)
                           else
                             let capsule' = capsule\<lparr>Status := CapsuleStatus_UNLOCKED,
                                                     UpdatedAt := BlockTime ctx\<rparr>;
                                 s1 = s\<lparr>capsules := kv_set capsuleID capsule' (capsules s)\<rparr>;
                                 s2 = EmitEvent (''capsule_opened'',
                                        [(''capsule_id'', show_nat (unat capsuleID)),
                                         (''accessor'', accessor)]) s1
                             in (Inr decryptedData, s2)))))"

text \<open>\<^verbatim>\<open>updateTransferStats\<close>.\<close>

definition updateTransferStats :: "Context \<Rightarrow> string \<Rightarrow> Keeper \<Rightarrow> Keeper" where
  "updateTransferStats ctx transferType s =
     (let stats = (case transferStats s of
                     None \<Rightarrow> \<lparr>TotalTransfers = 0, PendingTransfers = 0, CompletedTransfers = 0,
                               RejectedTransfers = 0, BatchTransfers = 0,
                               LastTransferTime = None\<rparr>
                   | Some st \<Rightarrow> st);
          stats1 = stats\<lparr>TotalTransfers := TotalTransfers stats + 1,
                         CompletedTransfers := CompletedTransfers stats + 1\<rparr>;
          stats2 = (if transferType = ''batch''
                    then stats1\<lparr>BatchTransfers := BatchTransfers stats1 + 1\<rparr> else stats1);
          stats3 = stats2\<lparr>LastTransferTime := Some (BlockTime ctx)\<rparr>
      in s\<lparr>transferStats := Some stats3\<rparr>)"

text \<open>
  \<^verbatim>\<open>TransferCapsuleOwnership\<close>. Removing an absent key from the user index is no error.
\<close>

definition TransferCapsuleOwnership ::
  "Host \<Rightarrow> Context \<Rightarrow> Keeper \<Rightarrow> 64 word \<Rightarrow> string \<Rightarrow> string \<Rightarrow> string \<Rightarrow> string \<Rightarrow>
   (error + unit) \<times> Keeper" where
  "TransferCapsuleOwnership h ctx s capsuleID fromOwner toOwner transferType message =
     (case GetCapsule h s capsuleID of
        Inl e \<Rightarrow> (Inl e, s)
      | Inr capsule \<Rightarrow>
          let capsule' = capsule\<lparr>Owner := toOwner, UpdatedAt := BlockTime ctx\<rparr>;
              s1 = s\<lparr>capsules := kv_set capsuleID capsule' (capsules s)\<rparr>;
              s2 = s1\<lparr>userCapsules := userCapsules s1 - {(fromOwner, capsuleID)}\<rparr>;
              s3 = s2\<lparr>userCapsules := insert (toOwner, capsuleID) (userCapsules s2)\<rparr>;
              transferID = show_nat (unat capsuleID) @ ''-'' @ show_int (BlockHeight ctx) @
                           ''-'' @ ''hash'';
              transferHistory' =
                \<lparr>th_CapsuleID = capsuleID, th_TransferID = transferID,
                 th_FromOwner = fromOwner, th_ToOwner = toOwner,
                 TransferType = transferType, th_Status = ''completed'',
                 TransferTime = BlockTime ctx, ApprovalTime = None, th_Message = message,
                 th_BlockHeight = BlockHeight ctx, TxHash = ''hash''\<rparr>;
              s4 = s3\<lparr>transferHistory := (transferHistory s3)(transferID \<mapsto> transferHistory')\<rparr>
          in (Inr (), updateTransferStats ctx transferType s4))"

definition GetPendingTransfer :: "Keeper \<Rightarrow> string \<Rightarrow> error + PendingTransfer" where
  "GetPendingTransfer s transferID =
     (case pendingTransfers s transferID of
        None \<Rightarrow> Inl (Errorf ''not found'')
      | Some transfer \<Rightarrow> Inr transfer)"

definition SetPendingTransfer :: "string \<Rightarrow> PendingTransfer \<Rightarrow> Keeper \<Rightarrow> Keeper" where
  "SetPendingTransfer transferID transfer s =
     s\<lparr>pendingTransfers := (pendingTransfers s)(transferID \<mapsto> transfer)\<rparr>"

record MsgApproveTransfer =
  Approver :: string
  msg_TransferID :: string
  msg_CapsuleID :: "64 word"
  Approved :: bool

text \<open>
  \<^verbatim>\<open>MsgServer.ApproveTransfer\<close>; the result is the \<^verbatim>\<open>Approved\<close> field of the response.
  The status the pending transfer already has is not read.
\<close>

definition ApproveTransfer ::
  "Host \<Rightarrow> Context \<Rightarrow> Keeper \<Rightarrow> MsgApproveTransfer \<Rightarrow> (error + bool) \<times> Keeper" where
  "ApproveTransfer h ctx s msg =
     (case GetPendingTransfer s (msg_TransferID msg) of
        Inl e \<Rightarrow> (Inl (Errorf ''pending transfer not found''), s)
      | Inr pendingTransfer \<Rightarrow>
          if After (BlockTime ctx) (ExpiryTime pendingTransfer) then
            (Inl ErrInvalidTransfer,
             SetPendingTransfer (msg_TransferID msg)
               (pendingTransfer\<lparr>pt_Status := ''expired''\<rparr>) s)
          else if pt_ToOwner pendingTransfer \<noteq> Approver msg then (Inl ErrUnauthorized, s)
          else
            (case (if Approved msg
                   then (case TransferCapsuleOwnership h ctx s (msg_CapsuleID msg)
                                (pt_FromOwner pendingTransfer) (pt_ToOwner pendingTransfer)
                                ''approved'' (pt_Message pendingTransfer) of
                           (Inl e, s') \<Rightarrow> Inl (s')
                         | (Inr u, s') \<Rightarrow> Inr (pendingTransfer\<lparr>pt_Status := ''approved''\<rparr>, s'))
                   else Inr (pendingTransfer\<lparr>pt_Status := ''rejected''\<rparr>, s)) of
               Inl s' \<Rightarrow> (Inl (Errorf ''failed to execute approved transfer''), s')
             | Inr (pendingTransfer', s') \<Rightarrow>
                 let s1 = SetPendingTransfer (msg_TransferID msg) pendingTransfer' s';
                     s2 = EmitEvent (''transfer_approval'',
                            [(''transfer_id'', msg_TransferID msg),
                             (''capsule_id'', show_nat (unat (msg_CapsuleID msg))),
                             (''approver'', Approver msg),
                             (''approved'', show_bool (Approved msg))]) s1
                 in (Inr (Approved msg), s2)))"

text \<open>
  \<^verbatim>\<open>processExpiredCapsules\<close>: the callback of the walk over \<open>capsules\<close> (\<open>expire_one\<close>) and
  the walk itself. Only the capsule collection is visited.
\<close>

definition expire_one :: "Context \<Rightarrow> 64 word \<Rightarrow> TimeCapsule \<Rightarrow> Keeper \<Rightarrow> Keeper" where
  "expire_one ctx key capsule s =
     (if Status capsule = CapsuleStatus_ACTIVE then
        let shouldExpire =
              (case CapsuleType capsule of
                 CapsuleType_DEAD_MANS_SWITCH \<Rightarrow>
                   (case ExpiresAt capsule of
                      None \<Rightarrow> False
                    | Some e \<Rightarrow> After (BlockTime ctx) e)
               | _ \<Rightarrow> False)
        in if shouldExpire then
             let capsule' = capsule\<lparr>Status := CapsuleStatus_EXPIRED, UpdatedAt := BlockTime ctx\<rparr>;
                 s1 = s\<lparr>capsules := kv_set key capsule' (capsules s)\<rparr>
             in EmitEvent (''capsule_expired'',
                  [(''capsule_id'', show_nat (unat key)), (''owner'', Owner capsule')]) s1
           else s
      else s)"

fun expire_walk :: "Context \<Rightarrow> (64 word \<times> TimeCapsule) list \<Rightarrow> Keeper \<Rightarrow> Keeper" where
  "expire_walk ctx [] s = s"
| "expire_walk ctx ((key, capsule) # rest) s = expire_walk ctx rest (expire_one ctx key capsule s)"

definition processExpiredCapsules :: "Context \<Rightarrow> Keeper \<Rightarrow> (error + unit) \<times> Keeper" where
  "processExpiredCapsules ctx s = (Inr (), expire_walk ctx (capsules s) s)"

definition BeginBlocker :: "Context \<Rightarrow> Keeper \<Rightarrow> (error + unit) \<times> Keeper" where
  "BeginBlocker ctx s = processExpiredCapsules ctx s"

text \<open>
  \<^verbatim>\<open>distributeKeyShares\<close>: one key share record and one event per share, in order;
  \<open>i\<close> is the loop index.
\<close>

fun distributeKeyShares :: "Context \<Rightarrow> 64 word \<Rightarrow> nat \<Rightarrow> Share list \<Rightarrow> Keeper \<Rightarrow> Keeper" where
  "distributeKeyShares ctx capsuleID i [] s = s"
| "distributeKeyShares ctx capsuleID i (share # rest) s =
     (let nodeID = ''masternode-'' @ show_nat i;
          keyShare = \<lparr>ks_CapsuleID = capsuleID, ShareIndex = word_of_nat i, NodeID = nodeID,
                      EncryptedShare = shareToBytes share, ks_CreatedAt = BlockTime ctx\<rparr>;
          s1 = s\<lparr>keyShares := (keyShares s)((capsuleID, word_of_nat i) \<mapsto> keyShare)\<rparr>;
          s2 = EmitEvent (''key_share_distributed'',
                 [(''capsule_id'', show_nat (unat capsuleID)), (''node_id'', nodeID),
                  (''share_index'', show_nat i)]) s1
      in distributeKeyShares ctx capsuleID (Suc i) rest s2)"

definition CapsuleType_String :: "CapsuleType \<Rightarrow> string" where
  "CapsuleType_String t =
     (case t of
        CapsuleType_UNKNOWN \<Rightarrow> ''UNKNOWN''
      | CapsuleType_SAFE \<Rightarrow> ''SAFE''
      | CapsuleType_TIME_LOCK \<Rightarrow> ''TIME_LOCK''
      | CapsuleType_CONDITIONAL \<Rightarrow> ''CONDITIONAL''
      | CapsuleType_MULTI_SIG \<Rightarrow> ''MULTI_SIG''
      | CapsuleType_DEAD_MANS_SWITCH \<Rightarrow> ''DEAD_MANS_SWITCH'')"

definition blockchainStorageThreshold :: nat where
  "blockchainStorageThreshold = 1024 * 1024"

definition maxDataSize :: nat where
  "maxDataSize = 100 * 1024 * 1024"

text \<open>
  \<^verbatim>\<open>Keeper.CreateCapsule\<close>. \<open>now\<close> is the wall clock that \<^verbatim>\<open>capsule.Validate()\<close> reads,
  \<open>rnd\<close> the random reader. The sequence \<^verbatim>\<open>Next\<close> returns the stored counter and stores
  its successor.
\<close>

definition CreateCapsule ::
  "Host \<Rightarrow> Rand \<Rightarrow> Time \<Rightarrow> Context \<Rightarrow> Keeper \<Rightarrow> string \<Rightarrow> string \<Rightarrow> bytes \<Rightarrow> CapsuleType \<Rightarrow>
   32 word \<Rightarrow> 32 word \<Rightarrow> Time option \<Rightarrow> string \<Rightarrow> (string \<times> string) list \<Rightarrow>
   (error + TimeCapsule) \<times> Keeper" where
  "CreateCapsule h rnd now ctx s owner recipient data capsuleType threshold totalShares
     unlockTime conditionContract metadata =
     (if \<not> addressCodec_ok h owner then (Inl ErrUnauthorized, s)
      else if recipient \<noteq> [] \<and> \<not> addressCodec_ok h recipient then (Inl ErrInvalidRecipient, s)
      else if length data > maxDataSize then (Inl ErrDataTooLarge, s)
      else
        let storageType = (if length data > blockchainStorageThreshold then ''ipfs''
                           else ''blockchain'')
        in
        (case GenerateKey rnd of
           Inl e \<Rightarrow> (Inl ErrInvalidEncryption, s)
         | Inr encryptionKey \<Rightarrow>
         (case Encrypt h rnd data encryptionKey of
            Inl e \<Rightarrow> (Inl ErrInvalidEncryption, s)
          | Inr encryptedData \<Rightarrow>
          let dataHash = HashData h data in
          (case (if storageType = ''ipfs''
                 then (case ipfs_Store h (capsuleCounter s + 1) (Data encryptedData) of
                         None \<Rightarrow> None
                       | Some hash \<Rightarrow> Some (hash, []))
                 else Some ([], Data encryptedData)) of
             None \<Rightarrow> (Inl ErrDataStorageFailed, s)
           | Some (ipfsHash, blockchainData) \<Rightarrow>
           (case SplitSecret NewShamirSecretSharing (rand_Int rnd) encryptionKey
                   (uint threshold) (uint totalShares) of
              Inl e \<Rightarrow> (Inl ErrInvalidKeyShare, s)
            | Inr shares \<Rightarrow>
              let capsuleID = capsuleCounter s;
                  s1 = s\<lparr>capsuleCounter := capsuleCounter s + 1\<rparr>;
                  capsule = \<lparr>ID = capsuleID, Owner = owner, Recipient = recipient,
                             CapsuleType = capsuleType, Status = CapsuleStatus_ACTIVE,
                             EncryptedData = blockchainData, DataHash = dataHash,
                             EncryptionAlgo = Algorithm encryptedData, IPFSHash = ipfsHash,
                             DataSize = int (length data), StorageType = storageType,
                             UnlockTime = unlockTime, ConditionContract = conditionContract,
                             RequiredSigs = 0, Threshold = threshold, TotalShares = totalShares,
                             ShareHolders = replicate (unat totalShares) [],
                             CreatedAt = BlockTime ctx, UpdatedAt = BlockTime ctx,
                             ExpiresAt = None,
                             LastActivity = (if capsuleType = CapsuleType_DEAD_MANS_SWITCH
                                             then Some (BlockTime ctx) else None),
                             InactivityPeriod = 0, Metadata = metadata\<rparr>
              in
              (case Validate (bech32_ok h) now capsule of
                 Inl e \<Rightarrow> (Inl ErrInvalidCapsule, s1)
               | Inr u \<Rightarrow>
                   let s2 = s1\<lparr>capsules := kv_set capsuleID capsule (capsules s1)\<rparr>;
                       s3 = s2\<lparr>userCapsules := insert (owner, capsuleID) (userCapsules s2)\<rparr>;
                       s4 = distributeKeyShares ctx capsuleID 0 shares s3;
                       s5 = EmitEvent (''capsule_created'',
                              [(''capsule_id'', show_nat (unat capsuleID)), (''owner'', owner),
                               (''recipient'', recipient),
                               (''capsule_type'', CapsuleType_String capsuleType),
                               (''data_hash'', dataHash)]) s4
                   in (Inr capsule, s5)))))))"

definition CapsuleStatus_String :: "CapsuleStatus \<Rightarrow> string" where
  "CapsuleStatus_String st =
     (case st of
        CapsuleStatus_UNKNOWN \<Rightarrow> ''UNKNOWN''
      | CapsuleStatus_ACTIVE \<Rightarrow> ''ACTIVE''
      | CapsuleStatus_UNLOCKED \<Rightarrow> ''UNLOCKED''
      | CapsuleStatus_EXPIRED \<Rightarrow> ''EXPIRED''
      | CapsuleStatus_CANCELLED \<Rightarrow> ''CANCELLED'')"

text \<open>
  \<^verbatim>\<open>Keeper.VerifyAccessConditions\<close>, the keeper's other access check: the verdict and the
  reason (without the formatted remaining time); its error result is always nil.
  \<^verbatim>\<open>OpenCapsule\<close> does not call it.
\<close>

definition VerifyAccessConditions :: "Context \<Rightarrow> TimeCapsule \<Rightarrow> string \<Rightarrow> bool \<times> string" where
  "VerifyAccessConditions ctx capsule accessor =
     (if Owner capsule \<noteq> accessor \<and> Recipient capsule \<noteq> accessor then
        (False, ''not owner or recipient'')
      else if Status capsule \<noteq> CapsuleStatus_ACTIVE then
        (False, ''capsule status is '' @ CapsuleStatus_String (Status capsule))
      else
        (case CapsuleType capsule of
           CapsuleType_SAFE \<Rightarrow> (Owner capsule = accessor, ''only owner can access safe capsule'')
         | CapsuleType_TIME_LOCK \<Rightarrow>
             (case UnlockTime capsule of
                None \<Rightarrow> (False, ''time-locked capsule missing unlock time'')
              | Some u \<Rightarrow>
                  if Before (BlockTime ctx) u then (False, ''capsule unlocks in'')
                  else (True, ''time condition met''))
         | CapsuleType_DEAD_MANS_SWITCH \<Rightarrow>
             (case LastActivity capsule of
                None \<Rightarrow> (False, ''dead man's switch capsule has no activity record'')
              | Some la \<Rightarrow>
                  if InactivityPeriod capsule = 0 then
                    (False, ''dead man's switch capsule has no inactivity period set'')
                  else
                    let inactivityDuration = sint (InactivityPeriod capsule * 1000000000);
                        deadlineTime = Time_Add la inactivityDuration
                    in if Before (BlockTime ctx) deadlineTime then
                         (False, ''inactivity period not met'')
                       else if Recipient capsule \<noteq> accessor then
                         (False, ''only recipient can access expired dead man's switch'')
                       else (True, ''inactivity period expired''))
         | CapsuleType_CONDITIONAL \<Rightarrow>
             if ConditionContract capsule = [] then
               (False, ''conditional capsule missing condition contract'')
             else (False, ''conditional checks not yet implemented'')
         | CapsuleType_MULTI_SIG \<Rightarrow> (False, ''multi-sig checks not yet implemented'')
         | CapsuleType_UNKNOWN \<Rightarrow> (False, ''unknown capsule type'')))"

section \<open>Example data\<close>

text \<open>
  A time-locked capsule of \<open>alice\<close> for \<open>bob\<close> that unlocks at instant 100, a block
  context at a given block time, a host that accepts every non-empty address, a pending
  transfer of the capsule from \<open>alice\<close> to \<open>bob\<close> that expires at instant 50, and stores
  that hold them. The theorems below evaluate the model on them.
\<close>

definition ex_capsule :: TimeCapsule where
  "ex_capsule =
     \<lparr>ID = 7, Owner = ''alice'', Recipient = ''bob'', CapsuleType = CapsuleType_TIME_LOCK,
      Status = CapsuleStatus_ACTIVE, EncryptedData = [1, 2, 3], DataHash = ''h'',
      EncryptionAlgo = ''AES-256-GCM'', IPFSHash = [], DataSize = 3,
      StorageType = ''blockchain'', UnlockTime = Some 100, ConditionContract = [],
      RequiredSigs = 0, Threshold = 2, TotalShares = 3, ShareHolders = [[], [], []],
      CreatedAt = 40, UpdatedAt = 40, ExpiresAt = None, LastActivity = None,
      InactivityPeriod = 0, Metadata = []\<rparr>"

definition ex_ctx :: "Time \<Rightarrow> Context" where
  "ex_ctx t = \<lparr>BlockTime = t, BlockHeight = 5\<rparr>"

definition ex_host :: Host where
  "ex_host =
     \<lparr>addressCodec_ok = (\<lambda>a. a \<noteq> []), bech32_ok = (\<lambda>a. a \<noteq> []),
      sha256_hex = (\<lambda>d. ''digest''), gcm_Seal = (\<lambda>k n d. d), gcm_Open = (\<lambda>k n c. Some c),
      ipfs_Store = (\<lambda>i d. None), ipfs_Retrieve = (\<lambda>x i. None),
      not_found_text = ''collections: not found''\<rparr>"

definition ex_pending :: PendingTransfer where
  "ex_pending =
     \<lparr>pt_TransferID = ''t1'', pt_CapsuleID = 7, pt_FromOwner = ''alice'', pt_ToOwner = ''bob'',
      RequestTime = 10, ExpiryTime = 50, pt_Message = [], RequireApproval = True,
      pt_Status = ''pending''\<rparr>"

definition ex_store :: "TimeCapsule \<Rightarrow> PendingTransfer \<Rightarrow> Keeper" where
  "ex_store c pt =
     \<lparr>capsules = [(7, c)], userCapsules = {(Owner c, 7)}, keyShares = Map.empty,
      capsuleCounter = 8, transferHistory = Map.empty,
      pendingTransfers = [''t1'' \<mapsto> pt], transferStats = None, events = []\<rparr>"

definition ex_approve :: "bool \<Rightarrow> MsgApproveTransfer" where
  "ex_approve b = \<lparr>Approver = ''bob'', msg_TransferID = ''t1'', msg_CapsuleID = 7, Approved = b\<rparr>"

text \<open>
  A random reader, an empty store whose counter stands at 1, and the creation of a
  time-locked capsule (threshold 2 of 3 shares, unlock time 100) at block time 40 on a
  machine whose wall clock reads \<open>now\<close>.
\<close>

definition ex_rand :: Rand where
  "ex_rand =
     \<lparr>rand_key = Some [1, 2, 3, 4, 5, 6, 7, 8, 9, 10, 11, 12, 13, 14, 15, 16,
                        17, 18, 19, 20, 21, 22, 23, 24, 25, 26, 27, 28, 29, 30, 31, 32],
      rand_nonce = Some [1, 2, 3, 4, 5, 6, 7, 8, 9, 10, 11, 12],
      rand_Int = (\<lambda>i. Some 5)\<rparr>"

definition ex_fresh :: Keeper where
  "ex_fresh =
     \<lparr>capsules = [], userCapsules = {}, keyShares = Map.empty, capsuleCounter = 1,
      transferHistory = Map.empty, pendingTransfers = Map.empty, transferStats = None,
      events = []\<rparr>"

definition ex_create :: "Time \<Rightarrow> (error + TimeCapsule) \<times> Keeper" where
  "ex_create now =
     CreateCapsule ex_host ex_rand now (ex_ctx 40) ex_fresh ''alice'' ''bob''
       [104, 101, 108, 108, 111] CapsuleType_TIME_LOCK 2 3 (Some 100) [] []"

text \<open>
  A 32-byte key and points of the line \<open>y = key + 5 x\<close> modulo the field modulus: the
  shares that \<^verbatim>\<open>SplitSecret\<close> makes of the key with threshold 2 and coefficient 5. A
  store with a second capsule, number 9, that belongs to \<open>carol\<close>.
\<close>

definition ex_key :: bytes where
  "ex_key = [1, 2, 3, 4, 5, 6, 7, 8, 9, 10, 11, 12, 13, 14, 15, 16,
             17, 18, 19, 20, 21, 22, 23, 24, 25, 26, 27, 28, 29, 30, 31, 32]"

definition ex_share :: "int \<Rightarrow> Share" where
  "ex_share i =
     \<lparr>X = i,
      Y = 455867356320691211509944977504407603390036387149619137164185182714736811808 + 5 * i\<rparr>"

definition ex_store2 :: Keeper where
  "ex_store2 =
     (ex_store ex_capsule ex_pending)
       \<lparr>capsules := [(7, ex_capsule),
                     (9, ex_capsule\<lparr>ID := 9, Owner := ''carol'', Recipient := []\<rparr>)],
        userCapsules := {(''alice'', 7), (''carol'', 9)}\<rparr>"

section \<open>The field modulus\<close>

text \<open>
  Claim C4. The spec gives the modulus as the secp256k1 field prime \<open>2^256 - 2^32 - 977\<close>.
  The constant of \<^verbatim>\<open>NewShamirSecretSharing\<close> is a different number.
\<close>

theorem C4_prime_is_not_secp256k1:
  "prime NewShamirSecretSharing \<noteq> 2 ^ 256 - 2 ^ 32 - 977"
  by (simp add: NewShamirSecretSharing_def)

text \<open>
  Claim C4, amended: the arithmetic of \<^verbatim>\<open>SplitSecret\<close> and \<^verbatim>\<open>CombineShares\<close> is modulo
  \<open>2^256 - 189\<close>, the constant that \<^verbatim>\<open>NewShamirSecretSharing\<close> stores in \<open>prime\<close>.
\<close>

theorem C4_prime_value:
  "prime NewShamirSecretSharing = 2 ^ 256 - 189"
  by (simp add: NewShamirSecretSharing_def)

section \<open>The store\<close>

lemma kv_get_kv_set_same: "kv_get (kv_set k v kvs) k = Some v"
  by (induction kvs) (auto simp: kv_get_def)

lemmas ex_defs = ex_capsule_def ex_ctx_def ex_host_def ex_pending_def ex_store_def ex_approve_def

section \<open>Opening a capsule\<close>

text \<open>
  Claim C1. A successful \<^verbatim>\<open>OpenCapsule\<close> would return the plaintext and set the status to
  Unlocked. The code hands \<^verbatim>\<open>Decrypt\<close> an \<^verbatim>\<open>EncryptedData\<close> without the nonce (the source
  notes that the nonce would have to be stored and retrieved), so every call that passes
  the checks before it ends in the nonce-length panic of \<^verbatim>\<open>gcm.Open\<close>: whatever the store,
  the accessor and the shares, \<^verbatim>\<open>OpenCapsule\<close> returns an error and leaves the store as it
  was.
\<close>

theorem C1_open_never_returns_plaintext:
  "\<exists>e. OpenCapsule h ctx s cid a shares = (Inl e, s)"
  by (auto simp: OpenCapsule_def Decrypt_def gcm_NonceSize_def Let_def
           split: sum.splits option.splits error.splits if_splits)

section \<open>The time predicate\<close>

text \<open>
  Claim C5. The time predicate should hold from block time = unlock time on. At block
  time 100 the example capsule (active, time-locked, unlock time 100) is not unlockable
  for \<^verbatim>\<open>IsUnlockable\<close> and \<^verbatim>\<open>TimeCondition.Evaluate\<close>, which test \<^verbatim>\<open>After\<close>, while
  \<^verbatim>\<open>VerifyAccessConditions\<close> of the same keeper, which tests \<^verbatim>\<open>Before\<close>, grants access.
\<close>

theorem C5_not_unlockable_at_unlock_time:
  "Status ex_capsule = CapsuleStatus_ACTIVE \<and> CapsuleType ex_capsule = CapsuleType_TIME_LOCK \<and>
   UnlockTime ex_capsule = Some 100 \<and> BlockTime (ex_ctx 100) = 100 \<and>
   \<not> IsUnlockable ex_capsule (ex_ctx 100) \<and>
   TimeCondition_Evaluate \<lparr>tc_UnlockTime = 100, tc_Timezone = []\<rparr> (ex_ctx 100) = Inr False \<and>
   fst (VerifyAccessConditions (ex_ctx 100) ex_capsule ''bob'')"
  by (simp add: ex_defs IsUnlockable_def After_def Before_def TimeCondition_Evaluate_def
        VerifyAccessConditions_def)

section \<open>Authorization of Open\<close>

text \<open>
  Claim C6. \<^verbatim>\<open>OpenCapsule\<close> decides with \<^verbatim>\<open>canAccess\<close>. The recipient \<open>bob\<close> of a Safe
  capsule passes it (the call fails later, for want of shares), and the owner \<open>alice\<close> of
  the time-locked capsule is rejected as unauthorized after the unlock time.
  \<^verbatim>\<open>VerifyAccessConditions\<close> gives the opposite verdict in both cases.
\<close>

theorem C6_canAccess_departs_from_table:
  "fst (OpenCapsule ex_host (ex_ctx 101)
          (ex_store (ex_capsule\<lparr>CapsuleType := CapsuleType_SAFE\<rparr>) ex_pending) 7 ''bob'' [])
     = Inl ErrInsufficientShares \<and>
   \<not> fst (VerifyAccessConditions (ex_ctx 101)
            (ex_capsule\<lparr>CapsuleType := CapsuleType_SAFE\<rparr>) ''bob'') \<and>
   IsUnlockable ex_capsule (ex_ctx 101) \<and>
   fst (OpenCapsule ex_host (ex_ctx 101) (ex_store ex_capsule ex_pending) 7 ''alice'' [])
     = Inl ErrUnauthorized \<and>
   fst (VerifyAccessConditions (ex_ctx 101) ex_capsule ''alice'')"
  by (simp add: ex_defs OpenCapsule_def GetCapsule_def kv_get_def canAccess_def
        IsUnlockable_def After_def Before_def VerifyAccessConditions_def)

section \<open>Pending transfers\<close>

lemmas approve_defs = ApproveTransfer_def GetPendingTransfer_def SetPendingTransfer_def
  TransferCapsuleOwnership_def GetCapsule_def updateTransferStats_def EmitEvent_def
  After_def Let_def

text \<open>
  Claim C7. A terminal status should never change, and a second approval should be
  refused as already terminal without another ownership update. \<^verbatim>\<open>ApproveTransfer\<close>
  never reads the status. In the example, \<open>bob\<close> approves the pending transfer and approves
  it again one instant later: the second call succeeds too and runs the ownership
  transfer a second time (two transfers are counted). A transfer that \<open>bob\<close> first
  rejected becomes approved by a later approval. The transfer is made on the capsule that
  the message names, without the owner and status checks of \<^verbatim>\<open>TransferCapsule\<close>: with
  the approved record about capsule 7, a second approval that names capsule 9 gives
  \<open>bob\<close> the capsule of \<open>carol\<close>.
\<close>

theorem C7_second_approval_succeeds:
  "fst (ApproveTransfer ex_host (ex_ctx 20) (ex_store ex_capsule ex_pending) (ex_approve True))
     = Inr True \<and>
   map_option pt_Status (pendingTransfers
     (snd (ApproveTransfer ex_host (ex_ctx 20) (ex_store ex_capsule ex_pending) (ex_approve True)))
     ''t1'') = Some ''approved'' \<and>
   fst (ApproveTransfer ex_host (ex_ctx 21)
     (snd (ApproveTransfer ex_host (ex_ctx 20) (ex_store ex_capsule ex_pending) (ex_approve True)))
     (ex_approve True)) = Inr True \<and>
   map_option TotalTransfers (transferStats (snd (ApproveTransfer ex_host (ex_ctx 21)
     (snd (ApproveTransfer ex_host (ex_ctx 20) (ex_store ex_capsule ex_pending) (ex_approve True)))
     (ex_approve True)))) = Some 2 \<and>
   map_option pt_Status (pendingTransfers (snd (ApproveTransfer ex_host (ex_ctx 21)
     (snd (ApproveTransfer ex_host (ex_ctx 20) (ex_store ex_capsule ex_pending) (ex_approve False)))
     (ex_approve True))) ''t1'') = Some ''approved'' \<and>
   map_option Owner (kv_get (capsules ex_store2) 9) = Some ''carol'' \<and>
   map_option Owner (kv_get (capsules (snd (ApproveTransfer ex_host (ex_ctx 21)
     (snd (ApproveTransfer ex_host (ex_ctx 20) ex_store2 (ex_approve True)))
     ((ex_approve True)\<lparr>msg_CapsuleID := 9\<rparr>)))) 9) = Some ''bob''"
  by (simp add: ex_defs ex_store2_def approve_defs kv_get_def show_nat.simps show_int_def
        show_bool_def)

section \<open>The tick processor\<close>

lemma expire_one_pending: "pendingTransfers (expire_one ctx key capsule s) = pendingTransfers s"
  by (simp add: expire_one_def EmitEvent_def Let_def)

lemma expire_walk_pending: "pendingTransfers (expire_walk ctx kvs s) = pendingTransfers s"
  by (induction kvs arbitrary: s) (auto simp: expire_one_pending)

text \<open>
  Claim C9. The tick should mark every pending transfer whose expiry time has passed as
  expired. The example transfer expires at 50; after the tick at block time 100 its
  status is still "pending".
\<close>

theorem C9_expired_transfer_stays_pending:
  "ExpiryTime ex_pending \<le> BlockTime (ex_ctx 100) \<and>
   map_option pt_Status (pendingTransfers (ex_store ex_capsule ex_pending) ''t1'')
     = Some ''pending'' \<and>
   map_option pt_Status
     (pendingTransfers (snd (BeginBlocker (ex_ctx 100) (ex_store ex_capsule ex_pending))) ''t1'')
     = Some ''pending''"
  by (simp add: ex_defs BeginBlocker_def processExpiredCapsules_def expire_one_def)

text \<open>
  Claim C9, amended: the tick processor walks the capsules only; it leaves every
  pending-transfer record as it was, whatever its expiry time.
\<close>

theorem C9_tick_leaves_pending_transfers:
  "pendingTransfers (snd (BeginBlocker ctx s)) = pendingTransfers s"
  by (simp add: BeginBlocker_def processExpiredCapsules_def expire_walk_pending)

section \<open>Determinism\<close>

lemmas create_defs = ex_create_def CreateCapsule_def ex_host_def ex_rand_def ex_ctx_def
  ex_fresh_def maxDataSize_def blockchainStorageThreshold_def GenerateKey_def Encrypt_def
  fill_def keySize_def gcm_NonceSize_def HashData_def SplitSecret_def SetBytes_def
  NewShamirSecretSharing_def Validate_def Before_def Let_def

text \<open>
  Claim C8. Two runs of the same \<^verbatim>\<open>CreateCapsule\<close> (same store, same message, same block
  time 40, same output of the random reader) on machines whose wall clocks read 50 and
  150: the first creates the capsule, the second rejects it, because \<^verbatim>\<open>Validate\<close> compares
  the unlock time 100 with \<^verbatim>\<open>time.Now()\<close>.
\<close>

theorem C8_create_depends_on_wall_clock:
  "\<not> isl (fst (ex_create 50)) \<and> fst (ex_create 150) = Inl ErrInvalidCapsule"
  by (simp add: create_defs)

section \<open>The shares that Open reads\<close>

lemma IsUnlockable_ShareHolders:
  "IsUnlockable (c\<lparr>ShareHolders := hs\<rparr>) ctx = IsUnlockable c ctx"
  by (simp add: IsUnlockable_def split: CapsuleType.splits option.splits)

lemma canAccess_ShareHolders: "canAccess (c\<lparr>ShareHolders := hs\<rparr>) a = canAccess c a"
  by (simp add: canAccess_def)

text \<open>
  The reconstruction on the example shares: two points of the line give back the key.
\<close>

lemmas eval_defs = CombineShares_def big_Mod_def ModInverse_def NewShamirSecretSharing_def
  bezw.simps gcd_non_0_int Bytes_def nat_Bytes.simps Let_def

lemma combine_ex: "CombineShares NewShamirSecretSharing [ex_share 1, ex_share 2] = Inr ex_key"
  by (simp add: eval_defs ex_share_def ex_key_def)

text \<open>
  Claim C10. For a stored capsule with threshold \<open>T\<close> and a call that passes the checks
  before the shares are looked at: with fewer than \<open>T\<close> shares the call fails with
  \<open>ErrInsufficientShares\<close>; with at least \<open>T\<close> shares (1) the result is that of the call
  with the first \<open>T\<close> shares alone; (2) it is \<open>ErrInvalidKeyShare\<close> exactly when
  \<^verbatim>\<open>CombineShares\<close> fails on the first \<open>T\<close> shares, (3) as it does when two of them have
  the same x-coordinate, whatever follows; (4) the key that \<^verbatim>\<open>CombineShares\<close> makes of the
  first \<open>T\<close> shares is the key that \<^verbatim>\<open>Decrypt\<close> gets (for a capsule stored on chain the
  call ends in the nonce panic when the key has 32 bytes and the algorithm is
  AES-256-GCM, and in \<open>ErrInvalidEncryption\<close> otherwise); (5) the stored key shares and
  the capsule's share holders do not matter for the result. The reconstruction is the
  interpolation at 0: the first two example shares give the example key.
\<close>

theorem C10_open_reconstructs_from_first_threshold_shares:
  assumes "kv_get (capsules s) cid = Some c"
    and "addressCodec_ok h a"
    and "Status c = CapsuleStatus_ACTIVE"
    and "canAccess c a"
    and "IsUnlockable c ctx"
  shows
    "(length shares < unat (Threshold c) \<longrightarrow>
        OpenCapsule h ctx s cid a shares = (Inl ErrInsufficientShares, s)) \<and>
     (unat (Threshold c) \<le> length shares \<longrightarrow>
        OpenCapsule h ctx s cid a shares
          = OpenCapsule h ctx s cid a (take (unat (Threshold c)) shares) \<and>
        (fst (OpenCapsule h ctx s cid a shares) = Inl ErrInvalidKeyShare \<longleftrightarrow>
           isl (CombineShares NewShamirSecretSharing (take (unat (Threshold c)) shares))) \<and>
        (\<not> distinct (map X (take (unat (Threshold c)) shares)) \<longrightarrow>
           OpenCapsule h ctx s cid a shares = (Inl ErrInvalidKeyShare, s)) \<and>
        (\<forall>key. CombineShares NewShamirSecretSharing (take (unat (Threshold c)) shares) = Inr key \<and>
               StorageType c \<noteq> ''ipfs'' \<longrightarrow>
           OpenCapsule h ctx s cid a shares =
             (Inl (if length key = keySize \<and> EncryptionAlgo c = ''AES-256-GCM''
                   then Panic ''crypto/cipher: incorrect nonce length given to GCM''
                   else ErrInvalidEncryption), s)) \<and>
        fst (OpenCapsule h ctx
               (s\<lparr>keyShares := ks,
                   capsules := kv_set cid (c\<lparr>ShareHolders := hs\<rparr>) (capsules s)\<rparr>) cid a shares)
          = fst (OpenCapsule h ctx s cid a shares)) \<and>
     CombineShares NewShamirSecretSharing [ex_share 1, ex_share 2] = Inr ex_key"
proof -
  let ?T = "unat (Threshold c)"
  have few: "length shares < ?T \<longrightarrow>
        OpenCapsule h ctx s cid a shares = (Inl ErrInsufficientShares, s)"
    using assms by (simp add: OpenCapsule_def GetCapsule_def)
  have pre: "?T \<le> length shares \<longrightarrow> OpenCapsule h ctx s cid a shares
          = OpenCapsule h ctx s cid a (take ?T shares)"
    using assms by (simp add: OpenCapsule_def GetCapsule_def)
  have iff: "?T \<le> length shares \<longrightarrow>
        (fst (OpenCapsule h ctx s cid a shares) = Inl ErrInvalidKeyShare \<longleftrightarrow>
           isl (CombineShares NewShamirSecretSharing (take ?T shares)))"
    using assms
    by (auto simp: OpenCapsule_def GetCapsule_def Decrypt_def gcm_NonceSize_def Let_def
             split: sum.splits option.splits error.splits if_splits)
  have dup: "?T \<le> length shares \<longrightarrow> \<not> distinct (map X (take ?T shares)) \<longrightarrow>
           OpenCapsule h ctx s cid a shares = (Inl ErrInvalidKeyShare, s)"
    using assms by (auto simp: OpenCapsule_def GetCapsule_def CombineShares_def)
  have key: "?T \<le> length shares \<longrightarrow>
        (\<forall>key. CombineShares NewShamirSecretSharing (take ?T shares) = Inr key \<and>
               StorageType c \<noteq> ''ipfs'' \<longrightarrow>
           OpenCapsule h ctx s cid a shares =
             (Inl (if length key = keySize \<and> EncryptionAlgo c = ''AES-256-GCM''
                   then Panic ''crypto/cipher: incorrect nonce length given to GCM''
                   else ErrInvalidEncryption), s))"
    using assms
    by (auto simp: OpenCapsule_def GetCapsule_def Decrypt_def gcm_NonceSize_def Let_def)
  have store: "fst (OpenCapsule h ctx
               (s\<lparr>keyShares := ks,
                   capsules := kv_set cid (c\<lparr>ShareHolders := hs\<rparr>) (capsules s)\<rparr>) cid a shares)
          = fst (OpenCapsule h ctx s cid a shares)"
    using assms
    by (auto simp: OpenCapsule_def GetCapsule_def kv_get_kv_set_same IsUnlockable_ShareHolders
          canAccess_ShareHolders Decrypt_def gcm_NonceSize_def Let_def
          split: sum.splits option.splits error.splits if_splits)
  from few pre iff dup key store combine_ex show ?thesis by blast
qed

theorem C10_open_reconstructs_from_first_threshold_shares_witness:
  "OpenCapsule ex_host (ex_ctx 101) (ex_store ex_capsule ex_pending) 7 ''bob''
     [ex_share 1, ex_share 2, ex_share 1]
     = (Inl (Panic ''crypto/cipher: incorrect nonce length given to GCM''),
        ex_store ex_capsule ex_pending) \<and>
   OpenCapsule ex_host (ex_ctx 101) (ex_store ex_capsule ex_pending) 7 ''bob''
     [ex_share 1, ex_share 1, ex_share 2, ex_share 3]
     = (Inl ErrInvalidKeyShare, ex_store ex_capsule ex_pending) \<and>
   OpenCapsule ex_host (ex_ctx 101) (ex_store ex_capsule ex_pending) 7 ''bob'' [ex_share 1]
     = (Inl ErrInsufficientShares, ex_store ex_capsule ex_pending)"
proof -
  have stored: "kv_get (capsules (ex_store ex_capsule ex_pending)) 7 = Some ex_capsule"
    by (simp add: ex_defs kv_get_def)
  have checks: "addressCodec_ok ex_host ''bob''" "Status ex_capsule = CapsuleStatus_ACTIVE"
    "canAccess ex_capsule ''bob''" "IsUnlockable ex_capsule (ex_ctx 101)"
    by (simp_all add: ex_defs canAccess_def IsUnlockable_def After_def)
  note inst = C10_open_reconstructs_from_first_threshold_shares [OF stored checks]
  have T: "unat (Threshold ex_capsule) = 2"
    by (simp add: ex_capsule_def)
  have rest: "StorageType ex_capsule \<noteq> ''ipfs''"
    "EncryptionAlgo ex_capsule = ''AES-256-GCM''" "length ex_key = keySize"
    by (simp_all add: ex_capsule_def ex_key_def keySize_def)
  have first: "take (unat (Threshold ex_capsule)) [ex_share 1, ex_share 2, ex_share 1]
                 = [ex_share 1, ex_share 2]"
    by (simp add: T)
  have comb: "CombineShares NewShamirSecretSharing [ex_share 1, ex_share 2] = Inr ex_key"
    using inst [of "[]"] by blast
  have "unat (Threshold ex_capsule) \<le> length [ex_share 1, ex_share 2, ex_share 1]"
    by (simp add: T)
  with inst [of "[ex_share 1, ex_share 2, ex_share 1]"]
  have "\<forall>key. CombineShares NewShamirSecretSharing
                (take (unat (Threshold ex_capsule)) [ex_share 1, ex_share 2, ex_share 1])
                = Inr key \<and> StorageType ex_capsule \<noteq> ''ipfs'' \<longrightarrow>
           OpenCapsule ex_host (ex_ctx 101) (ex_store ex_capsule ex_pending) 7 ''bob''
             [ex_share 1, ex_share 2, ex_share 1] =
             (Inl (if length key = keySize \<and> EncryptionAlgo ex_capsule = ''AES-256-GCM''
                   then Panic ''crypto/cipher: incorrect nonce length given to GCM''
                   else ErrInvalidEncryption), ex_store ex_capsule ex_pending)"
    by blast
  with first comb rest
  have one: "OpenCapsule ex_host (ex_ctx 101) (ex_store ex_capsule ex_pending) 7 ''bob''
     [ex_share 1, ex_share 2, ex_share 1]
     = (Inl (Panic ''crypto/cipher: incorrect nonce length given to GCM''),
        ex_store ex_capsule ex_pending)"
    by simp
  have "unat (Threshold ex_capsule) \<le> length [ex_share 1, ex_share 1, ex_share 2, ex_share 3]"
    "\<not> distinct (map X (take (unat (Threshold ex_capsule))
                             [ex_share 1, ex_share 1, ex_share 2, ex_share 3]))"
    by (simp_all add: T)
  with inst [of "[ex_share 1, ex_share 1, ex_share 2, ex_share 3]"]
  have two: "OpenCapsule ex_host (ex_ctx 101) (ex_store ex_capsule ex_pending) 7 ''bob''
     [ex_share 1, ex_share 1, ex_share 2, ex_share 3]
     = (Inl ErrInvalidKeyShare, ex_store ex_capsule ex_pending)"
    by blast
  have "length [ex_share 1] < unat (Threshold ex_capsule)"
    by (simp add: T)
  with inst [of "[ex_share 1]"]
  have three: "OpenCapsule ex_host (ex_ctx 101) (ex_store ex_capsule ex_pending) 7 ''bob''
     [ex_share 1] = (Inl ErrInsufficientShares, ex_store ex_capsule ex_pending)"
    by blast
  from one two three show ?thesis by blast
qed

end
